theory Spec2Isabelle
  imports Main
begin

section \<open>Values of the OAuth router\<close>

text \<open>
  The router of \<^verbatim>\<open>src/routes/oauth/index.ts\<close> is a chain of Express middlewares. Its
  collaborators (the data-access SDK, the profile normaliser, \<^verbatim>\<open>sendError\<close>,
  \<^verbatim>\<open>generateRedirectUrl\<close>, the Grant configuration and middleware, the validation
  rules) are imported from modules outside the file; they are the fields of the record
  \<open>env\<close> below, and every call the router makes to the outside is recorded, in order,
  as an \<open>event\<close>.
  An awaited call either resolves (\<open>Inr\<close>) or rejects (\<open>Inl\<close>); the handlers contain no
  \<^verbatim>\<open>try\<close>, so a rejection ends the handler.
\<close>

datatype js_error = JsError string | TypeError string

type_synonym query = "(string \<times> string) list"

text \<open>The raw profile Grant stores is an object, hence truthy whenever it is present.\<close>

datatype raw_profile = RawProfile "(string \<times> string) list"

text \<open>\<^verbatim>\<open>session.grant.response\<close>: the fields the callback reads.\<close>

record grant_response =
  r_access_token :: "string option"
  r_refresh_token :: "string option"
  r_jwt :: "string option"
  r_profile :: "raw_profile option"

text \<open>\<^verbatim>\<open>session.grant\<close>.\<close>

record grant_session =
  g_response :: "grant_response option"
  g_provider :: "string option"

text \<open>The session object; \<open>None\<close> is JavaScript's \<^verbatim>\<open>undefined\<close>.\<close>

record session =
  s_grant :: "grant_session option"
  s_options :: "query option"
  s_redirectTo :: "string option"

text \<open>The normalised profile: the callback reads \<^verbatim>\<open>profile.id\<close> and \<^verbatim>\<open>profile.email\<close>.\<close>

record profile =
  p_id :: "string option"
  p_email :: "string option"
  p_displayName :: "string option"

record user =
  u_id :: string

text \<open>A row of the \<^verbatim>\<open>authUserProviders\<close> query: its id and the user it belongs to.\<close>

record auth_user_provider =
  aup_id :: string
  aup_user :: user

text \<open>
  The link object the callback builds for \<^verbatim>\<open>insertUserProviderToUser\<close> (with
  \<^verbatim>\<open>userId\<close>) and for the nested \<^verbatim>\<open>userProviders.data\<close> of \<^verbatim>\<open>insertUser\<close> (without).
\<close>

record user_provider =
  up_userId :: "string option"
  up_providerId :: string
  up_providerUserId :: "string option"
  up_accessToken :: "string option"
  up_refreshToken :: "string option"

type_synonym user_input = "(string \<times> string) list"

text \<open>\<^verbatim>\<open>config[provider]\<close> is \<^verbatim>\<open>undefined\<close>, \<^verbatim>\<open>null\<close> or a provider configuration.\<close>

record provider_config =
  client_id :: "string option"
  client_secret :: "string option"

datatype config_entry = Undefined | Null | Config provider_config

datatype event =
    SessionDestroy
  | SessionSave
  | ClearCookie string
  | SetCookie string string
  | LoggerWarn string
  | ConsoleWarn string
  | ConsoleLog "string option" "string option" "string option"
  | AuthUserProviders string "string option"
  | UpdateAuthUserprovider string "string option" "string option"
  | GetUserByEmail "string option"
  | InsertUserProviderToUser user_provider
  | InsertUser user_input "user_provider list"
  | GetNewRefreshToken string
  | SendError string "string option" bool
  | Redirect string

datatype completion = Returned | Rejected js_error

text \<open>
  A request as the middlewares after \<^verbatim>\<open>session(...)\<close> see it: the session id the
  cookie carried (if any), the id of the session attached to the request, the session,
  the query and the segments of the path.
\<close>

record request =
  req_cookieId :: "string option"
  req_sessionID :: string
  req_session :: session
  req_query :: query
  req_path :: "string list"

text \<open>
  The modules the router imports and that are not part of the file. The Grant
  middleware either answers the request itself (\<open>Inl\<close>, the redirect to the provider)
  or calls \<^verbatim>\<open>next()\<close> with what it has put into the session (\<open>Inr\<close>).
\<close>

record env =
  AUTH_CLIENT_URL :: string
  SESSION_NAME :: string
  OAUTH_ROUTE :: "string list"
  config :: "string \<Rightarrow> config_entry"
  grantMiddleware :: "request \<Rightarrow> session \<Rightarrow> event + session"
  redirectToRule :: "query \<Rightarrow> string option"
  queryValidator :: "query \<Rightarrow> event + query"
  preRequestProviderMiddleware :: "string \<Rightarrow> query \<Rightarrow> event + query"
  normaliseProfile :: "string \<Rightarrow> grant_response \<Rightarrow> js_error + profile option"
  authUserProviders :: "string \<Rightarrow> string option \<Rightarrow> js_error + auth_user_provider list"
  updateAuthUserprovider :: "string \<Rightarrow> string option \<Rightarrow> string option \<Rightarrow> js_error + unit"
  getUserByEmail :: "string option \<Rightarrow> js_error + user option"
  insertUserProviderToUser :: "user_provider \<Rightarrow> js_error + auth_user_provider option"
  transformOauthProfile :: "profile \<Rightarrow> query option \<Rightarrow> js_error + user_input"
  insertUser :: "user_input \<Rightarrow> user_provider list \<Rightarrow> js_error + user option"
  getNewRefreshToken :: "string \<Rightarrow> js_error + string"
  generateRedirectUrl :: "string \<Rightarrow> (string \<times> string) list \<Rightarrow> string"

section \<open>JavaScript truthiness\<close>

text \<open>A string is falsy when it is \<^verbatim>\<open>undefined\<close> or empty.\<close>

definition falsy :: "string option \<Rightarrow> bool" where
  "falsy v = (v = None \<or> v = Some [])"

text \<open>\<^verbatim>\<open>a || b\<close> on two strings.\<close>

definition js_or :: "string \<Rightarrow> string \<Rightarrow> string" where
  "js_or a b = (if a = [] then b else a)"

section \<open>The session middleware\<close>

text \<open>The options handed to \<^verbatim>\<open>session(...)\<close> in lines 35 to 42.\<close>

record session_options =
  so_resave :: bool
  so_saveUninitialized :: bool
  so_name :: string

definition sessionOptions :: "env \<Rightarrow> session_options" where
  "sessionOptions env =
     \<lparr>so_resave = False, so_saveUninitialized = True, so_name = SESSION_NAME env\<rparr>"

text \<open>
  What the express-session library does with these options when the headers of a
  response are written and a session is still attached to the request: a session whose
  id did not come with the request's cookie gets its cookie when
  \<^verbatim>\<open>saveUninitialized\<close> is set or the session was modified; a session the request
  already named gets none (no \<^verbatim>\<open>rolling\<close>, no cookie expiry configured).
\<close>

definition shouldSetCookie :: "session_options \<Rightarrow> string option \<Rightarrow> string \<Rightarrow> bool \<Rightarrow> bool" where
  "shouldSetCookie opts cookieId sessionID modified =
     (if cookieId = Some sessionID then False else (so_saveUninitialized opts \<or> modified))"

text \<open>Sending a response writes the headers, where the session cookie is decided.\<close>

definition respond :: "env \<Rightarrow> request \<Rightarrow> bool \<Rightarrow> event \<Rightarrow> event list" where
  "respond env req modified ev =
     (if shouldSetCookie (sessionOptions env) (req_cookieId req) (req_sessionID req) modified
      then [SetCookie (so_name (sessionOptions env)) (req_sessionID req)] else []) @ [ev]"

section \<open>The middlewares mounted on the provider route: lines 47 to 94\<close>

text \<open>
  Express runs a middleware mounted with \<^verbatim>\<open>use(path, ...)\<close> on every request whose
  path starts with \<^verbatim>\<open>path\<close>. For \<^verbatim>\<open>`${OAUTH_ROUTE}/:provider`\<close> the path has to
  continue after the route with one non-empty segment, the provider, and may go on
  after it: the provider's return to \<^verbatim>\<open>.../:provider/callback\<close> is such a path.
  Express compares the segments of the route without regard to case; here the segments
  of a path are taken in the spelling of the route.
\<close>

definition mountParam :: "string list \<Rightarrow> string list \<Rightarrow> string option" where
  "mountParam route path =
     (if take (length route) path = route
      then (case drop (length route) path of
              [] \<Rightarrow> None
            | provider # rest \<Rightarrow> if provider = [] then None else Some provider)
      else None)"

text \<open>A middleware either calls \<^verbatim>\<open>next()\<close> or stops the chain with a response.\<close>

datatype flow = Next | Stop

text \<open>Lines 57 to 75: validate the provider configuration.\<close>

definition validateProvider ::
  "env \<Rightarrow> request \<Rightarrow> string \<Rightarrow> string option \<Rightarrow> event list \<times> flow" where
  "validateProvider env req provider redirectTo =
     (case config env provider of
        Undefined \<Rightarrow> (respond env req False (SendError ''disabled-endpoint'' redirectTo True), Stop)
      | Null \<Rightarrow> (respond env req False (SendError ''disabled-endpoint'' redirectTo True), Stop)
      | Config providerConfig \<Rightarrow>
          if falsy (client_id providerConfig) \<or> falsy (client_secret providerConfig)
          then (LoggerWarn (''Missing client id or secret for provider '' @ provider)
                  # respond env req False (SendError ''invalid-oauth-configuration'' redirectTo True),
                Stop)
          else ([], Next))"

text \<open>Lines 87 to 94: store the query and the redirection url in the session.\<close>

definition saveSession :: "session \<Rightarrow> query \<Rightarrow> string option \<Rightarrow> session" where
  "saveSession session query redirectTo =
     session\<lparr>s_options := Some query, s_redirectTo := redirectTo\<rparr>"

text \<open>
  The middlewares of lines 47 to 94 on one request with the \<^verbatim>\<open>:provider\<close> parameter
  \<open>provider\<close>: the events, the session as they leave it, and whether the last of them
  called \<^verbatim>\<open>next()\<close> or one of them stopped with a response.
\<close>

definition providerChain :: "env \<Rightarrow> request \<Rightarrow> string \<Rightarrow> event list \<times> session \<times> flow" where
  "providerChain env req provider =
     (let redirectTo = redirectToRule env (req_query req) in
      case validateProvider env req provider redirectTo of
        (evs, Stop) \<Rightarrow> (evs, req_session req, Stop)
      | (evs, Next) \<Rightarrow>
          (case queryValidator env (req_query req) of
             Inl ev \<Rightarrow> (evs @ respond env req False ev, req_session req, Stop)
           | Inr query \<Rightarrow>
               (case preRequestProviderMiddleware env provider query of
                  Inl ev \<Rightarrow> (evs @ respond env req False ev, req_session req, Stop)
                | Inr query' \<Rightarrow>
                    (evs @ [SessionSave],
                     saveSession (req_session req) query' redirectTo, Next))))"

section \<open>The callback: lines 111 to 215\<close>

text \<open>The effects \<open>evs\<close> happen, then the rest of the handler runs.\<close>

definition after :: "event list \<Rightarrow> event list \<times> completion \<Rightarrow> event list \<times> completion" where
  "after evs rest = (evs @ fst rest, snd rest)"

text \<open>Lines 202 to 214: the final redirect.\<close>

definition finish :: "env \<Rightarrow> string \<Rightarrow> string \<Rightarrow> user option \<Rightarrow> event list \<times> completion" where
  "finish env redirectTo provider user =
     (case user of
        Some u \<Rightarrow>
          after [GetNewRefreshToken (u_id u)]
            (case getNewRefreshToken env (u_id u) of
               Inl e \<Rightarrow> ([], Rejected e)
             | Inr refreshToken \<Rightarrow>
                 ([Redirect (redirectTo @ ''?refreshToken='' @ refreshToken)], Returned))
      | None \<Rightarrow>
          ([Redirect (generateRedirectUrl env redirectTo
              [(''error'', js_or ''error'' ''invalid-request''),
               (''provider'', provider),
               (''errorDescription'', js_or ''error_description'' ''OAuth request cancelled'')])],
           Returned))"

text \<open>Lines 153 to 162: the userProvider already exists; update it with the new tokens.\<close>

definition updateExisting ::
  "env \<Rightarrow> string \<Rightarrow> string \<Rightarrow> grant_response \<Rightarrow> auth_user_provider \<Rightarrow> event list \<times> completion" where
  "updateExisting env redirectTo provider response authUserProvider =
     (let accessToken = r_access_token response;
          refreshToken = r_refresh_token response
      in after [UpdateAuthUserprovider (aup_id authUserProvider) accessToken refreshToken]
           (case updateAuthUserprovider env (aup_id authUserProvider) accessToken refreshToken of
              Inl e \<Rightarrow> ([], Rejected e)
            | Inr _ \<Rightarrow> finish env redirectTo provider (Some (aup_user authUserProvider))))"

text \<open>Lines 165 to 181: add this provider to the existing user with the same email.\<close>

definition addProvider ::
  "env \<Rightarrow> string \<Rightarrow> string \<Rightarrow> grant_response \<Rightarrow> profile \<Rightarrow> user \<Rightarrow> event list \<times> completion" where
  "addProvider env redirectTo provider response profile u =
     (let userProvider =
            \<lparr>up_userId = Some (u_id u), up_providerId = provider,
             up_providerUserId = p_id profile,
             up_accessToken = r_access_token response,
             up_refreshToken = r_refresh_token response\<rparr>
      in after [InsertUserProviderToUser userProvider]
           (case insertUserProviderToUser env userProvider of
              Inl e \<Rightarrow> ([], Rejected e)
            | Inr None \<Rightarrow>
                ([ConsoleWarn ''Could not add a provider to user'',
                  SendError ''internal-error'' (Some redirectTo) True], Returned)
            | Inr (Some _) \<Rightarrow> finish env redirectTo provider (Some u)))"

text \<open>Lines 182 to 199: no user found with this email; create a new user.\<close>

definition createUser ::
  "env \<Rightarrow> string \<Rightarrow> query option \<Rightarrow> string \<Rightarrow> grant_response \<Rightarrow> profile \<Rightarrow> event list \<times> completion" where
  "createUser env redirectTo options provider response profile =
     (case transformOauthProfile env profile options of
        Inl e \<Rightarrow> ([], Rejected e)
      | Inr userInput \<Rightarrow>
          (let userProviders =
                 [\<lparr>up_userId = None, up_providerId = provider,
                   up_providerUserId = p_id profile,
                   up_accessToken = r_access_token response,
                   up_refreshToken = r_refresh_token response\<rparr>]
           in after [InsertUser userInput userProviders]
                (case insertUser env userInput userProviders of
                   Inl e \<Rightarrow> ([], Rejected e)
                 | Inr user \<Rightarrow> finish env redirectTo provider user)))"

text \<open>Lines 143 to 200: find or create the user and connect it to the provider.\<close>

definition linkUser ::
  "env \<Rightarrow> string \<Rightarrow> query option \<Rightarrow> string \<Rightarrow> grant_response \<Rightarrow> profile \<Rightarrow> event list \<times> completion" where
  "linkUser env redirectTo options provider response profile =
     after [AuthUserProviders provider (p_id profile)]
       (case authUserProviders env provider (p_id profile) of
          Inl e \<Rightarrow> ([], Rejected e)
        | Inr (authUserProvider # _) \<Rightarrow>
            updateExisting env redirectTo provider response authUserProvider
        | Inr [] \<Rightarrow>
            after [GetUserByEmail (p_email profile)]
              (case getUserByEmail env (p_email profile) of
                 Inl e \<Rightarrow> ([], Rejected e)
               | Inr (Some u) \<Rightarrow> addProvider env redirectTo provider response profile u
               | Inr None \<Rightarrow> createUser env redirectTo options provider response profile))"

text \<open>
  Lines 123 to 142: the guards on the Grant result, and the normalisation. The handler
  reads \<^verbatim>\<open>profile.id\<close> right after the normaliser resolved, which raises a
  \<^verbatim>\<open>TypeError\<close> when there is no profile object.
\<close>

definition handleGrant ::
  "env \<Rightarrow> string \<Rightarrow> query option \<Rightarrow> grant_session option \<Rightarrow> event list \<times> completion" where
  "handleGrant env redirectTo options grant =
     (let response = (case grant of None \<Rightarrow> None | Some g \<Rightarrow> g_response g);
          provider = (case grant of None \<Rightarrow> None | Some g \<Rightarrow> g_provider g)
      in case response of
           None \<Rightarrow> ([SendError ''internal-error'' (Some redirectTo) True], Returned)
         | Some resp \<Rightarrow>
             (case provider of
                None \<Rightarrow> ([SendError ''internal-error'' (Some redirectTo) True], Returned)
              | Some prov \<Rightarrow>
                  if prov = []
                  then ([SendError ''internal-error'' (Some redirectTo) True], Returned)
                  else
                    (case r_profile resp of
                       None \<Rightarrow>
                         ([LoggerWarn ''No Oauth profile in the session'',
                           SendError ''internal-error'' (Some redirectTo) True], Returned)
                     | Some _ \<Rightarrow>
                         (case normaliseProfile env prov resp of
                            Inl e \<Rightarrow> ([], Rejected e)
                          | Inr None \<Rightarrow>
                              ([], Rejected (TypeError
                                 ''Cannot read properties of undefined (reading id)''))
                          | Inr (Some profile) \<Rightarrow>
                              after [ConsoleLog (r_access_token resp) (r_refresh_token resp)
                                       (r_jwt resp)]
                                (linkUser env redirectTo options prov resp profile)))))"

text \<open>
  Lines 111 to 122, then the rest of the handler. The destructuring default replaces
  an \<^verbatim>\<open>undefined\<close> \<^verbatim>\<open>session.redirectTo\<close> by \<^verbatim>\<open>ENV.AUTH_CLIENT_URL\<close>. Once the
  session is destroyed no session is attached to the request any more, so the session
  middleware sets no cookie on the callback's response.
\<close>

definition callback :: "env \<Rightarrow> session \<Rightarrow> event list \<times> completion" where
  "callback env session =
     (let grant = s_grant session;
          options = s_options session;
          redirectTo = (case s_redirectTo session of None \<Rightarrow> AUTH_CLIENT_URL env | Some url \<Rightarrow> url)
      in after [SessionDestroy, ClearCookie (SESSION_NAME env)]
           (handleGrant env redirectTo options grant))"

section \<open>The router: lines 32 to 215\<close>

text \<open>
  Lines 100 and 111: the Grant middleware, then the callback. Grant's own response goes
  out with a session still attached to the request.
\<close>

definition grantThenCallback ::
  "env \<Rightarrow> request \<Rightarrow> bool \<Rightarrow> session \<Rightarrow> event list \<times> completion" where
  "grantThenCallback env req modified session =
     (case grantMiddleware env req session of
        Inl ev \<Rightarrow> (respond env req modified ev, Returned)
      | Inr session' \<Rightarrow> callback env session')"

text \<open>
  One request through the whole router. The middlewares of lines 47 to 94 run when the
  path is under the provider route, Grant and the callback on every request that gets
  that far.
\<close>

definition router :: "env \<Rightarrow> request \<Rightarrow> event list \<times> completion" where
  "router env req =
     (case mountParam (OAUTH_ROUTE env) (req_path req) of
        None \<Rightarrow> grantThenCallback env req False (req_session req)
      | Some provider \<Rightarrow>
          (case providerChain env req provider of
             (evs, session, Stop) \<Rightarrow> (evs, Returned)
           | (evs, session, Next) \<Rightarrow> after evs (grantThenCallback env req True session)))"

section \<open>Reading a run\<close>

text \<open>The responses sent to the browser, the data-store mutations and all data-access calls of a run.\<close>

fun is_response :: "event \<Rightarrow> bool" where
  "is_response (SendError _ _ _) = True"
| "is_response (Redirect _) = True"
| "is_response _ = False"

fun is_mutation :: "event \<Rightarrow> bool" where
  "is_mutation (UpdateAuthUserprovider _ _ _) = True"
| "is_mutation (InsertUserProviderToUser _) = True"
| "is_mutation (InsertUser _ _) = True"
| "is_mutation _ = False"

fun is_call :: "event \<Rightarrow> bool" where
  "is_call (AuthUserProviders _ _) = True"
| "is_call (GetUserByEmail _) = True"
| "is_call (GetNewRefreshToken _) = True"
| "is_call e = is_mutation e"

definition responses :: "event list \<Rightarrow> event list" where
  "responses evs = filter is_response evs"

definition mutations :: "event list \<Rightarrow> event list" where
  "mutations evs = filter is_mutation evs"

definition calls :: "event list \<Rightarrow> event list" where
  "calls evs = filter is_call evs"

text \<open>The redirect target the callback works with (line 112).\<close>

definition target :: "env \<Rightarrow> session \<Rightarrow> string" where
  "target env s = (case s_redirectTo s of None \<Rightarrow> AUTH_CLIENT_URL env | Some url \<Rightarrow> url)"


section \<open>Example collaborators\<close>

text \<open>A stand-in for \<^verbatim>\<open>generateRedirectUrl\<close> in the examples: the parameters as a query string.\<close>

fun queryString :: "(string \<times> string) list \<Rightarrow> string" where
  "queryString [] = []"
| "queryString [(k, v)] = k @ ''='' @ v"
| "queryString ((k, v) # kvs) = k @ ''='' @ v @ ''&'' @ queryString kvs"

definition exampleProfile :: "string \<Rightarrow> grant_response \<Rightarrow> js_error + profile option" where
  "exampleProfile provider response =
     (case r_profile response of
        None \<Rightarrow> Inl (JsError ''no profile'')
      | Some (RawProfile entries) \<Rightarrow>
          (case map_of entries ''id'' of
             None \<Rightarrow> Inl (JsError ''profile-missing'')
           | Some i \<Rightarrow>
               Inr (Some \<lparr>p_id = Some i, p_email = map_of entries ''email'',
                          p_displayName = map_of entries ''name''\<rparr>)))"

definition exampleResponse :: grant_response where
  "exampleResponse =
     \<lparr>r_access_token = Some ''at'', r_refresh_token = Some ''rt'', r_jwt = None,
      r_profile = Some (RawProfile [(''id'', ''42''), (''email'', ''ann@example.org'')])\<rparr>"

text \<open>
  A stand-in for Grant: on the provider's return it attaches the response to the
  session and calls \<^verbatim>\<open>next()\<close>; before, it redirects to the provider.
\<close>

definition exampleGrant :: "request \<Rightarrow> session \<Rightarrow> event + session" where
  "exampleGrant req session =
     (if ''callback'' \<in> set (req_path req)
      then Inr (session\<lparr>s_grant :=
                  Some \<lparr>g_response = Some exampleResponse, g_provider = Some ''github''\<rparr>\<rparr>)
      else Inl (Redirect ''https://github.com/login/oauth/authorize''))"

text \<open>An empty user store: no link, no user; every mutation succeeds.\<close>

definition exampleEnv :: env where
  "exampleEnv =
     \<lparr>AUTH_CLIENT_URL = ''https://client.example'',
      SESSION_NAME = ''connect.sid'',
      OAUTH_ROUTE = [''signin'', ''provider''],
      config = (\<lambda>provider.
        if provider = ''github''
        then Config \<lparr>client_id = Some ''id'', client_secret = Some ''secret''\<rparr>
        else if provider = ''twitter'' then Null else Undefined),
      grantMiddleware = exampleGrant,
      redirectToRule = (\<lambda>query. map_of query ''redirectTo''),
      queryValidator = Inr,
      preRequestProviderMiddleware = (\<lambda>provider query. Inr query),
      normaliseProfile = exampleProfile,
      authUserProviders = (\<lambda>provider providerUserId. Inr []),
      updateAuthUserprovider = (\<lambda>i accessToken refreshToken. Inr ()),
      getUserByEmail = (\<lambda>email. Inr None),
      insertUserProviderToUser = (\<lambda>userProvider.
        Inr (Some \<lparr>aup_id = ''link-2'', aup_user = \<lparr>u_id = ''user-1''\<rparr>\<rparr>)),
      transformOauthProfile = (\<lambda>profile options.
        Inr ((''email'', case p_email profile of None \<Rightarrow> [] | Some e \<Rightarrow> e)
               # (case options of None \<Rightarrow> [] | Some query \<Rightarrow> query))),
      insertUser = (\<lambda>userInput userProviders. Inr (Some \<lparr>u_id = ''user-2''\<rparr>)),
      getNewRefreshToken = (\<lambda>userId. Inr (''token-for-'' @ userId)),
      generateRedirectUrl = (\<lambda>url parameters. url @ ''?'' @ queryString parameters)\<rparr>"

definition exampleSession :: session where
  "exampleSession =
     \<lparr>s_grant = Some \<lparr>g_response = Some exampleResponse, g_provider = Some ''github''\<rparr>,
      s_options = Some [(''locale'', ''en'')],
      s_redirectTo = Some ''https://app.example/finish''\<rparr>"

definition exampleLink :: auth_user_provider where
  "exampleLink = \<lparr>aup_id = ''link-1'', aup_user = \<lparr>u_id = ''user-1''\<rparr>\<rparr>"

text \<open>The first request of a handshake, from a browser without a session cookie.\<close>

definition exampleRequest :: request where
  "exampleRequest =
     \<lparr>req_cookieId = None, req_sessionID = ''sid-1'',
      req_session = \<lparr>s_grant = None, s_options = None, s_redirectTo = None\<rparr>,
      req_query = [(''redirectTo'', ''https://app.example/finish''), (''locale'', ''en'')],
      req_path = [''signin'', ''provider'', ''github'']\<rparr>"

text \<open>The same request for a provider that is configured but disabled.\<close>

definition disabledRequest :: request where
  "disabledRequest = exampleRequest\<lparr>req_path := [''signin'', ''provider'', ''twitter'']\<rparr>"

text \<open>
  The provider's return of that handshake: the browser sends the session cookie, the
  session holds what the first request stored, the query is the provider's.
\<close>

definition callbackRequest :: request where
  "callbackRequest =
     \<lparr>req_cookieId = Some ''sid-1'', req_sessionID = ''sid-1'',
      req_session =
        \<lparr>s_grant = Some \<lparr>g_response = None, g_provider = Some ''github''\<rparr>,
         s_options = Some [(''redirectTo'', ''https://app.example/finish''), (''locale'', ''en'')],
         s_redirectTo = Some ''https://app.example/finish''\<rparr>,
      req_query = [(''code'', ''abc''), (''state'', ''xyz'')],
      req_path = [''signin'', ''provider'', ''github'', ''callback'']\<rparr>"

text \<open>The identity of the example is already linked to \<open>user-1\<close>.\<close>

definition linkedEnv :: env where
  "linkedEnv = exampleEnv\<lparr>authUserProviders := (\<lambda>provider providerUserId. Inr [exampleLink])\<rparr>"

text \<open>No link yet, but a user with the email of the example.\<close>

definition knownEmailEnv :: env where
  "knownEmailEnv = exampleEnv\<lparr>getUserByEmail := (\<lambda>email. Inr (Some \<lparr>u_id = ''user-1''\<rparr>))\<rparr>"

text \<open>The user store does not create the user: \<^verbatim>\<open>insertUser\<close> resolves with \<^verbatim>\<open>null\<close>.\<close>

definition noInsertEnv :: env where
  "noInsertEnv = exampleEnv\<lparr>insertUser := (\<lambda>userInput userProviders. Inr None)\<rparr>"

text \<open>The normaliser raises.\<close>

definition noProfileEnv :: env where
  "noProfileEnv =
     exampleEnv\<lparr>normaliseProfile := (\<lambda>provider response. Inl (JsError ''profile-missing''))\<rparr>"

text \<open>The normaliser passes on a profile whatever it finds, also without an id.\<close>

definition lenientProfile :: "string \<Rightarrow> grant_response \<Rightarrow> js_error + profile option" where
  "lenientProfile provider response =
     (case r_profile response of
        None \<Rightarrow> Inr None
      | Some (RawProfile entries) \<Rightarrow>
          Inr (Some \<lparr>p_id = map_of entries ''id'', p_email = map_of entries ''email'',
                     p_displayName = map_of entries ''name''\<rparr>))"

definition lenientEnv :: env where
  "lenientEnv = exampleEnv\<lparr>normaliseProfile := lenientProfile\<rparr>"

text \<open>Grant delivered tokens but no raw profile.\<close>

definition noRawProfileSession :: session where
  "noRawProfileSession =
     exampleSession\<lparr>s_grant :=
       Some \<lparr>g_response = Some (exampleResponse\<lparr>r_profile := None\<rparr>),
             g_provider = Some ''github''\<rparr>\<rparr>"

text \<open>The raw profile has no id, which the example normaliser refuses.\<close>

definition noIdResponse :: grant_response where
  "noIdResponse = exampleResponse\<lparr>r_profile := Some (RawProfile [(''email'', ''ann@example.org'')])\<rparr>"

definition noIdSession :: session where
  "noIdSession =
     exampleSession\<lparr>s_grant := Some \<lparr>g_response = Some noIdResponse, g_provider = Some ''github''\<rparr>\<rparr>"

text \<open>A request for a provider the configuration does not know, from a browser that already holds the session cookie.\<close>

definition returningRequest :: request where
  "returningRequest =
     exampleRequest\<lparr>req_cookieId := Some ''sid-1'', req_path := [''signin'', ''provider'', ''gitlab'']\<rparr>"

section \<open>Basic facts about runs\<close>

lemma fst_after: "fst (after evs r) = evs @ fst r"
  by (simp add: after_def)

lemma snd_after: "snd (after evs r) = snd r"
  by (simp add: after_def)

lemma calls_append: "calls (xs @ ys) = calls xs @ calls ys"
  by (simp add: calls_def)

lemma calls_Nil: "calls [] = []"
  by (simp add: calls_def)

lemma calls_Cons: "calls (e # evs) = (if is_call e then e # calls evs else calls evs)"
  by (simp add: calls_def)

lemma mutations_append: "mutations (xs @ ys) = mutations xs @ mutations ys"
  by (simp add: mutations_def)

lemma mutations_Nil: "mutations [] = []"
  by (simp add: mutations_def)

lemma mutations_Cons:
  "mutations (e # evs) = (if is_mutation e then e # mutations evs else mutations evs)"
  by (simp add: mutations_def)

lemma responses_append: "responses (xs @ ys) = responses xs @ responses ys"
  by (simp add: responses_def)

lemma responses_Nil: "responses [] = []"
  by (simp add: responses_def)

lemma responses_Cons:
  "responses (e # evs) = (if is_response e then e # responses evs else responses evs)"
  by (simp add: responses_def)

lemmas run_simps =
  fst_after snd_after calls_append calls_Nil calls_Cons mutations_append mutations_Nil
  mutations_Cons responses_append responses_Nil responses_Cons

lemmas example_defs =
  exampleEnv_def exampleSession_def exampleResponse_def exampleProfile_def exampleLink_def
  exampleRequest_def exampleGrant_def disabledRequest_def callbackRequest_def linkedEnv_def knownEmailEnv_def noInsertEnv_def noProfileEnv_def
  noRawProfileSession_def noIdResponse_def noIdSession_def returningRequest_def
  lenientProfile_def lenientEnv_def

lemmas callback_defs =
  callback_def handleGrant_def linkUser_def updateExisting_def addProvider_def createUser_def
  finish_def after_def js_or_def Let_def

lemmas router_defs =
  router_def mountParam_def grantThenCallback_def providerChain_def validateProvider_def
  respond_def shouldSetCookie_def sessionOptions_def saveSession_def falsy_def Let_def

lemma callback_target:
  "callback env s =
     after [SessionDestroy, ClearCookie (SESSION_NAME env)]
       (handleGrant env (target env s) (s_options s) (s_grant s))"
  by (simp add: callback_def target_def Let_def)

lemma callback_normalised:
  assumes "s_grant s = Some g" "g_response g = Some r" "g_provider g = Some p" "p \<noteq> []"
    "r_profile r = Some raw" "normaliseProfile env p r = Inr (Some prof)"
  shows "callback env s =
     after [SessionDestroy, ClearCookie (SESSION_NAME env),
            ConsoleLog (r_access_token r) (r_refresh_token r) (r_jwt r)]
       (linkUser env (target env s) (s_options s) p r prof)"
  using assms by (simp add: callback_target handleGrant_def Let_def after_def)

subsection \<open>How a run ends\<close>




lemma finish_Some:
  "getNewRefreshToken env (u_id u) = Inr tok \<Longrightarrow>
   finish env url p (Some u) =
     ([GetNewRefreshToken (u_id u), Redirect (url @ ''?refreshToken='' @ tok)], Returned)"
  by (simp add: finish_def after_def)









subsection \<open>The data-access calls of each branch\<close>

lemma calls_finish_Some: "calls (fst (finish env url p (Some u))) = [GetNewRefreshToken (u_id u)]"
  by (simp add: finish_def run_simps split: sum.splits)

lemma mutations_finish: "mutations (fst (finish env url p user)) = []"
  by (simp add: finish_def run_simps split: sum.splits option.splits)

lemma calls_updateExisting:
  "calls (fst (updateExisting env url p r l)) =
     UpdateAuthUserprovider (aup_id l) (r_access_token r) (r_refresh_token r)
       # (case updateAuthUserprovider env (aup_id l) (r_access_token r) (r_refresh_token r) of
            Inl e \<Rightarrow> [] | Inr ok \<Rightarrow> [GetNewRefreshToken (u_id (aup_user l))])"
  by (simp add: updateExisting_def Let_def run_simps calls_finish_Some split: sum.splits)

lemma mutations_updateExisting:
  "mutations (fst (updateExisting env url p r l)) =
     [UpdateAuthUserprovider (aup_id l) (r_access_token r) (r_refresh_token r)]"
  by (simp add: updateExisting_def Let_def run_simps mutations_finish split: sum.splits)

lemma mutations_addProvider:
  "mutations (fst (addProvider env url p r prof u)) =
     [InsertUserProviderToUser
        \<lparr>up_userId = Some (u_id u), up_providerId = p, up_providerUserId = p_id prof,
         up_accessToken = r_access_token r, up_refreshToken = r_refresh_token r\<rparr>]"
  by (simp add: addProvider_def Let_def run_simps mutations_finish
        split: sum.splits option.splits)

lemma mutations_createUser:
  "transformOauthProfile env prof opts = Inr userInput \<Longrightarrow>
   mutations (fst (createUser env url opts p r prof)) =
     [InsertUser userInput
        [\<lparr>up_userId = None, up_providerId = p, up_providerUserId = p_id prof,
          up_accessToken = r_access_token r, up_refreshToken = r_refresh_token r\<rparr>]]"
  by (simp add: createUser_def Let_def run_simps mutations_finish split: sum.splits)

text \<open>
  Whatever \<^verbatim>\<open>insertUser\<close> does, the branch that creates a user never calls
  \<^verbatim>\<open>sendError\<close>: lines 182 to 199 have no check of their own, unlike lines 178 to 181.
\<close>

lemma createUser_no_sendError:
  "SendError code redirectTo forward \<notin> set (fst (createUser env url opts p r prof))"
  by (simp add: createUser_def finish_def Let_def run_simps split: sum.splits option.splits)

section \<open>The callback consumes the handshake session\<close>

text \<open>
  Claim C1. Every run of the callback starts by destroying the session and clearing
  its cookie, so no response is sent before that. When the Grant result carries a
  response but no profile, the run consists of the destruction, the cookie clearing, the
  warning (when a provider name is present) and \<^verbatim>\<open>sendError\<close> with the code
  \<^verbatim>\<open>internal-error\<close>, the redirect target and forwarding switched on; the handler
  returns.
\<close>

theorem callback_destroys_session_first:
  "take 2 (fst (callback env s)) = [SessionDestroy, ClearCookie (SESSION_NAME env)] \<and>
   responses (take 2 (fst (callback env s))) = [] \<and>
   (s_grant s = Some g \<and> g_response g = Some r \<and> r_profile r = None \<longrightarrow>
      callback env s =
        ([SessionDestroy, ClearCookie (SESSION_NAME env)]
           @ (if falsy (g_provider g) then [] else [LoggerWarn ''No Oauth profile in the session''])
           @ [SendError ''internal-error'' (Some (target env s)) True], Returned))"
  by (simp add: callback_target run_simps handleGrant_def Let_def after_def falsy_def
        split: option.splits)

theorem callback_destroys_session_first_witness:
  "s_grant noRawProfileSession =
     Some \<lparr>g_response = Some (exampleResponse\<lparr>r_profile := None\<rparr>), g_provider = Some ''github''\<rparr> \<and>
   r_profile (exampleResponse\<lparr>r_profile := None\<rparr>) = None \<and>
   callback exampleEnv noRawProfileSession =
     ([SessionDestroy, ClearCookie ''connect.sid'',
       LoggerWarn ''No Oauth profile in the session'',
       SendError ''internal-error'' (Some ''https://app.example/finish'') True], Returned)"
  using callback_destroys_session_first [of exampleEnv noRawProfileSession
      "\<lparr>g_response = Some (exampleResponse\<lparr>r_profile := None\<rparr>), g_provider = Some ''github''\<rparr>"
      "exampleResponse\<lparr>r_profile := None\<rparr>"]
  by (simp add: example_defs target_def falsy_def)

section \<open>Account linking\<close>

text \<open>
  Claim C2. When the normalised profile's provider and provider user id match an
  existing link (the query returns a non-empty list, whose first row is used), the
  data-access calls of the callback are exactly: the link query, the update of that
  row's access and refresh tokens and, once the update resolved, the request of a
  refresh token for the row's user. So the only mutation is the token update, no user
  and no link is inserted, and the lookup by email is never made. When the update and
  the token request resolve, the handler returns after redirecting to the redirect
  target with that user's refresh token.
\<close>

theorem callback_existing_link_updates_tokens:
  assumes "s_grant s = Some g" "g_response g = Some r" "g_provider g = Some p" "p \<noteq> []"
    "r_profile r = Some raw" "normaliseProfile env p r = Inr (Some prof)"
    "authUserProviders env p (p_id prof) = Inr (l # ls)"
  shows "calls (fst (callback env s)) =
      [AuthUserProviders p (p_id prof),
       UpdateAuthUserprovider (aup_id l) (r_access_token r) (r_refresh_token r)]
      @ (case updateAuthUserprovider env (aup_id l) (r_access_token r) (r_refresh_token r) of
           Inl e \<Rightarrow> [] | Inr ok \<Rightarrow> [GetNewRefreshToken (u_id (aup_user l))]) \<and>
    mutations (fst (callback env s)) =
      [UpdateAuthUserprovider (aup_id l) (r_access_token r) (r_refresh_token r)] \<and>
    (\<forall>email. GetUserByEmail email \<notin> set (fst (callback env s))) \<and>
    (\<forall>tok. updateAuthUserprovider env (aup_id l) (r_access_token r) (r_refresh_token r) = Inr () \<and>
           getNewRefreshToken env (u_id (aup_user l)) = Inr tok \<longrightarrow>
       responses (fst (callback env s)) = [Redirect (target env s @ ''?refreshToken='' @ tok)] \<and>
       snd (callback env s) = Returned)"
proof -
  have run: "callback env s =
      after [SessionDestroy, ClearCookie (SESSION_NAME env),
             ConsoleLog (r_access_token r) (r_refresh_token r) (r_jwt r),
             AuthUserProviders p (p_id prof)]
        (updateExisting env (target env s) p r l)"
    using assms(7) by (simp add: callback_normalised [OF assms(1-6)] linkUser_def after_def)
  have c: "calls (fst (callback env s)) =
      AuthUserProviders p (p_id prof) # calls (fst (updateExisting env (target env s) p r l))"
    by (simp add: run run_simps)
  have m: "mutations (fst (callback env s)) =
      mutations (fst (updateExisting env (target env s) p r l))"
    by (simp add: run run_simps)
  have no_email: "GetUserByEmail email \<notin> set (fst (callback env s))" for email
  proof
    assume "GetUserByEmail email \<in> set (fst (callback env s))"
    then have "GetUserByEmail email \<in> set (calls (fst (callback env s)))"
      by (simp add: calls_def)
    then show False
      by (simp add: c calls_updateExisting split: sum.splits)
  qed
  have success: "responses (fst (callback env s)) =
        [Redirect (target env s @ ''?refreshToken='' @ tok)] \<and> snd (callback env s) = Returned"
    if "updateAuthUserprovider env (aup_id l) (r_access_token r) (r_refresh_token r) = Inr ()"
      and "getNewRefreshToken env (u_id (aup_user l)) = Inr tok" for tok
    using that by (simp add: run updateExisting_def Let_def finish_Some run_simps)
  from c m no_email success show ?thesis
    by (simp add: calls_updateExisting mutations_updateExisting)
qed

theorem callback_existing_link_updates_tokens_witness:
  "authUserProviders linkedEnv ''github'' (Some ''42'') = Inr [exampleLink] \<and>
   calls (fst (callback linkedEnv exampleSession)) =
     [AuthUserProviders ''github'' (Some ''42''),
      UpdateAuthUserprovider ''link-1'' (Some ''at'') (Some ''rt''),
      GetNewRefreshToken ''user-1''] \<and>
   mutations (fst (callback linkedEnv exampleSession)) =
     [UpdateAuthUserprovider ''link-1'' (Some ''at'') (Some ''rt'')] \<and>
   responses (fst (callback linkedEnv exampleSession)) =
     [Redirect ''https://app.example/finish?refreshToken=token-for-user-1'']"
proof -
  let ?g = "\<lparr>g_response = Some exampleResponse, g_provider = Some ''github''\<rparr>"
  let ?prof = "\<lparr>p_id = Some ''42'', p_email = Some ''ann@example.org'', p_displayName = None\<rparr>"
  have h1: "s_grant exampleSession = Some ?g" by (simp add: example_defs)
  have h2: "g_response ?g = Some exampleResponse" by simp
  have h3: "g_provider ?g = Some ''github''" by simp
  have h4: "''github'' \<noteq> []" by simp
  have h5: "r_profile exampleResponse =
      Some (RawProfile [(''id'', ''42''), (''email'', ''ann@example.org'')])"
    by (simp add: example_defs)
  have h6: "normaliseProfile linkedEnv ''github'' exampleResponse = Inr (Some ?prof)"
    by (simp add: example_defs)
  have h7: "authUserProviders linkedEnv ''github'' (p_id ?prof) = Inr (exampleLink # [])"
    by (simp add: example_defs)
  from callback_existing_link_updates_tokens [OF h1 h2 h3 h4 h5 h6 h7] show ?thesis
    by (simp add: example_defs target_def)
qed

text \<open>
  Claim C3. When no link matches and the lookup by the profile's email finds a user,
  the callback issues exactly one mutation: the insertion of one link carrying that
  user's id, the provider, the provider user id and the access and refresh tokens of
  the Grant response. No user is inserted.
\<close>

theorem callback_known_email_adds_link:
  assumes "s_grant s = Some g" "g_response g = Some r" "g_provider g = Some p" "p \<noteq> []"
    "r_profile r = Some raw" "normaliseProfile env p r = Inr (Some prof)"
    "authUserProviders env p (p_id prof) = Inr []"
    "getUserByEmail env (p_email prof) = Inr (Some u)"
  shows "mutations (fst (callback env s)) =
      [InsertUserProviderToUser
         \<lparr>up_userId = Some (u_id u), up_providerId = p, up_providerUserId = p_id prof,
          up_accessToken = r_access_token r, up_refreshToken = r_refresh_token r\<rparr>]"
proof -
  have run: "callback env s =
      after [SessionDestroy, ClearCookie (SESSION_NAME env),
             ConsoleLog (r_access_token r) (r_refresh_token r) (r_jwt r),
             AuthUserProviders p (p_id prof), GetUserByEmail (p_email prof)]
        (addProvider env (target env s) p r prof u)"
    using assms(7,8) by (simp add: callback_normalised [OF assms(1-6)] linkUser_def after_def)
  have "mutations (fst (callback env s)) =
      mutations (fst (addProvider env (target env s) p r prof u))"
    by (simp add: run run_simps)
  then show ?thesis
    by (simp add: mutations_addProvider)
qed

theorem callback_known_email_adds_link_witness:
  "authUserProviders knownEmailEnv ''github'' (Some ''42'') = Inr [] \<and>
   getUserByEmail knownEmailEnv (Some ''ann@example.org'') = Inr (Some \<lparr>u_id = ''user-1''\<rparr>) \<and>
   mutations (fst (callback knownEmailEnv exampleSession)) =
     [InsertUserProviderToUser
        \<lparr>up_userId = Some ''user-1'', up_providerId = ''github'', up_providerUserId = Some ''42'',
         up_accessToken = Some ''at'', up_refreshToken = Some ''rt''\<rparr>]"
proof -
  let ?g = "\<lparr>g_response = Some exampleResponse, g_provider = Some ''github''\<rparr>"
  let ?prof = "\<lparr>p_id = Some ''42'', p_email = Some ''ann@example.org'', p_displayName = None\<rparr>"
  have h1: "s_grant exampleSession = Some ?g" by (simp add: example_defs)
  have h2: "g_response ?g = Some exampleResponse" by simp
  have h3: "g_provider ?g = Some ''github''" by simp
  have h4: "''github'' \<noteq> []" by simp
  have h5: "r_profile exampleResponse =
      Some (RawProfile [(''id'', ''42''), (''email'', ''ann@example.org'')])"
    by (simp add: example_defs)
  have h6: "normaliseProfile knownEmailEnv ''github'' exampleResponse = Inr (Some ?prof)"
    by (simp add: example_defs)
  have h7: "authUserProviders knownEmailEnv ''github'' (p_id ?prof) = Inr []"
    by (simp add: example_defs)
  have h8: "getUserByEmail knownEmailEnv (p_email ?prof) = Inr (Some \<lparr>u_id = ''user-1''\<rparr>)"
    by (simp add: example_defs)
  from callback_known_email_adds_link [OF h1 h2 h3 h4 h5 h6 h7 h8] show ?thesis
    by (simp add: example_defs)
qed

text \<open>
  The branch of lines 182 to 199 on its own: when no link matches and the lookup by
  email finds no user, the callback issues exactly one mutation, one \<^verbatim>\<open>insertUser\<close>
  whose input is what \<^verbatim>\<open>transformOauthProfile\<close> made of the profile and the options
  the session holds, with exactly one provider link nested in it.
\<close>

lemma callback_creates_user_from_session_options:
  assumes "s_grant s = Some g" "g_response g = Some r" "g_provider g = Some p" "p \<noteq> []"
    "r_profile r = Some raw" "normaliseProfile env p r = Inr (Some prof)"
    "authUserProviders env p (p_id prof) = Inr []"
    "getUserByEmail env (p_email prof) = Inr None"
    "transformOauthProfile env prof (s_options s) = Inr userInput"
  shows "mutations (fst (callback env s)) =
      [InsertUser userInput
         [\<lparr>up_userId = None, up_providerId = p, up_providerUserId = p_id prof,
           up_accessToken = r_access_token r, up_refreshToken = r_refresh_token r\<rparr>]]"
proof -
  have run: "callback env s =
      after [SessionDestroy, ClearCookie (SESSION_NAME env),
             ConsoleLog (r_access_token r) (r_refresh_token r) (r_jwt r),
             AuthUserProviders p (p_id prof), GetUserByEmail (p_email prof)]
        (createUser env (target env s) (s_options s) p r prof)"
    using assms(7,8) by (simp add: callback_normalised [OF assms(1-6)] linkUser_def after_def)
  have "mutations (fst (callback env s)) =
      mutations (fst (createUser env (target env s) (s_options s) p r prof))"
    by (simp add: run run_simps)
  then show ?thesis
    by (simp add: mutations_createUser [OF assms(9)])
qed

text \<open>
  Claim C4. The new user should be built from the profile and the registration
  options saved at initiation, with one link, in one insert. The callback does issue
  exactly one \<^verbatim>\<open>insertUser\<close> with one nested link, but the options it reads are no
  longer those of the initiation: the middlewares of lines 47 to 94 run again on the
  provider's return and line 90 replaces \<^verbatim>\<open>session.options\<close> by the query of that
  request. In the run below the session arrives with the options of the initiation
  (\<^verbatim>\<open>locale=en\<close>); the user is built from \<^verbatim>\<open>code\<close> and \<^verbatim>\<open>state\<close> instead. Had the
  session reached the callback as it arrived, the user would have been built from the
  saved options (last conjunct).
\<close>

theorem router_callback_overwrites_options:
  "s_options (req_session callbackRequest) =
     Some [(''redirectTo'', ''https://app.example/finish''), (''locale'', ''en'')] \<and>
   mutations (fst (router exampleEnv callbackRequest)) =
     [InsertUser [(''email'', ''ann@example.org''), (''code'', ''abc''), (''state'', ''xyz'')]
        [\<lparr>up_userId = None, up_providerId = ''github'', up_providerUserId = Some ''42'',
          up_accessToken = Some ''at'', up_refreshToken = Some ''rt''\<rparr>]] \<and>
   mutations (fst (callback exampleEnv
     ((req_session callbackRequest)
        \<lparr>s_grant := Some \<lparr>g_response = Some exampleResponse, g_provider = Some ''github''\<rparr>\<rparr>))) =
     [InsertUser [(''email'', ''ann@example.org''),
                  (''redirectTo'', ''https://app.example/finish''), (''locale'', ''en'')]
        [\<lparr>up_userId = None, up_providerId = ''github'', up_providerUserId = Some ''42'',
          up_accessToken = Some ''at'', up_refreshToken = Some ''rt''\<rparr>]]"
  by (simp add: router_defs callback_defs example_defs run_simps)

section \<open>Failures\<close>

text \<open>
  Claim C5. A failed mutation should end in \<^verbatim>\<open>sendError\<close> with \<^verbatim>\<open>internal-error\<close>.
  Lines 178 to 181 do so when the link insertion returns nothing. The creation of a user
  has no such check: when \<^verbatim>\<open>insertUser\<close> resolves with \<^verbatim>\<open>null\<close> the handler falls
  through to the last redirect of the file, whose error parameter is the literal
  \<^verbatim>\<open>error\<close>. The run below is that of the example session on a store that creates no
  user.
\<close>

theorem callback_user_creation_failure:
  "callback noInsertEnv exampleSession =
     ([SessionDestroy, ClearCookie ''connect.sid'',
       ConsoleLog (Some ''at'') (Some ''rt'') None,
       AuthUserProviders ''github'' (Some ''42''),
       GetUserByEmail (Some ''ann@example.org''),
       InsertUser [(''email'', ''ann@example.org''), (''locale'', ''en'')]
         [\<lparr>up_userId = None, up_providerId = ''github'', up_providerUserId = Some ''42'',
           up_accessToken = Some ''at'', up_refreshToken = Some ''rt''\<rparr>],
       Redirect ''https://app.example/finish?error=error&provider=github&errorDescription=error_description''],
      Returned)"
  by (simp add: callback_defs example_defs)

text \<open>
  Claim C6. The error codes sent to the client should be \<^verbatim>\<open>disabled-endpoint\<close>,
  \<^verbatim>\<open>invalid-oauth-configuration\<close>, \<^verbatim>\<open>invalid-request\<close> and \<^verbatim>\<open>internal-error\<close>
  only. In line 210 the expression \<^verbatim>\<open>'error' || 'invalid-request'\<close> is the string
  \<^verbatim>\<open>error\<close>: whatever \<^verbatim>\<open>generateRedirectUrl\<close> is, the last redirect of the callback
  is built from the parameters \<^verbatim>\<open>error=error\<close>, the provider and
  \<^verbatim>\<open>errorDescription=error_description\<close>.
\<close>

theorem callback_last_redirect_error_code:
  "responses (fst (callback (noInsertEnv\<lparr>generateRedirectUrl := gen\<rparr>) exampleSession)) =
     [Redirect (gen ''https://app.example/finish''
        [(''error'', ''error''), (''provider'', ''github''),
         (''errorDescription'', ''error_description'')])] \<and>
   js_or ''error'' ''invalid-request'' = ''error'' \<and>
   ''error'' \<notin> {''disabled-endpoint'', ''invalid-oauth-configuration'', ''invalid-request'',
                  ''internal-error''}"
  by (simp add: callback_defs example_defs run_simps)

text \<open>
  The handler awaits \<^verbatim>\<open>normaliseProfile\<close> outside any \<^verbatim>\<open>try\<close>: when the normaliser
  raises, the handler ends with that exception right after the session is destroyed.
\<close>

lemma callback_normalise_raises:
  assumes "s_grant s = Some g" "g_response g = Some r" "g_provider g = Some p" "p \<noteq> []"
    "r_profile r = Some raw" "normaliseProfile env p r = Inl e"
  shows "callback env s = ([SessionDestroy, ClearCookie (SESSION_NAME env)], Rejected e)"
  using assms by (simp add: callback_target handleGrant_def Let_def after_def)

text \<open>
  Claim C7. A failed normalisation should end in \<^verbatim>\<open>sendError\<close> with
  \<^verbatim>\<open>internal-error\<close> and a warning, as the failures of lines 125 to 131 and 178 to 181
  do. Line 132 has no such handling. With a normaliser that raises, the run holds no
  response and no warning: the request is left unanswered. With a normaliser that
  passes on a profile without an id, line 134 reads \<^verbatim>\<open>undefined\<close> and the callback goes
  on to look up the link with it and to create a user.
\<close>

theorem callback_normalise_failure_unhandled:
  "callback noProfileEnv exampleSession =
     ([SessionDestroy, ClearCookie ''connect.sid''], Rejected (JsError ''profile-missing'')) \<and>
   callback lenientEnv noIdSession =
     ([SessionDestroy, ClearCookie ''connect.sid'',
       ConsoleLog (Some ''at'') (Some ''rt'') None,
       AuthUserProviders ''github'' None,
       GetUserByEmail (Some ''ann@example.org''),
       InsertUser [(''email'', ''ann@example.org''), (''locale'', ''en'')]
         [\<lparr>up_userId = None, up_providerId = ''github'', up_providerUserId = None,
           up_accessToken = Some ''at'', up_refreshToken = Some ''rt''\<rparr>],
       GetNewRefreshToken ''user-2'',
       Redirect ''https://app.example/finish?refreshToken=token-for-user-2''],
      Returned)"
  by (simp add: callback_defs example_defs)

section \<open>A provider that is not enabled\<close>

text \<open>
  Claim C8, as the code has it. On a request under the provider route, when
  \<^verbatim>\<open>config[provider]\<close> is \<^verbatim>\<open>undefined\<close> or \<^verbatim>\<open>null\<close>, the two alike, the router
  stops at \<^verbatim>\<open>sendError\<close> with \<^verbatim>\<open>disabled-endpoint\<close>, the caller's redirect target and
  forwarding switched on, and the middlewares store nothing in the session. The session
  middleware runs before, with \<^verbatim>\<open>saveUninitialized: true\<close>: the response carries the
  session cookie unless the request already named that session.
\<close>

theorem disabled_provider_stops_router:
  assumes "mountParam (OAUTH_ROUTE env) (req_path req) = Some provider"
    and "config env provider = Undefined \<or> config env provider = Null"
  shows "router env req =
     ((if req_cookieId req = Some (req_sessionID req) then []
       else [SetCookie (SESSION_NAME env) (req_sessionID req)])
      @ [SendError ''disabled-endpoint'' (redirectToRule env (req_query req)) True], Returned) \<and>
    fst (snd (providerChain env req provider)) = req_session req"
  using assms
  by (auto simp: router_def providerChain_def validateProvider_def respond_def
        shouldSetCookie_def sessionOptions_def Let_def)

theorem disabled_provider_stops_router_witness:
  "mountParam (OAUTH_ROUTE exampleEnv) (req_path returningRequest) = Some ''gitlab'' \<and>
   config exampleEnv ''gitlab'' = Undefined \<and>
   router exampleEnv returningRequest =
     ([SendError ''disabled-endpoint'' (Some ''https://app.example/finish'') True], Returned)"
proof -
  have h1: "mountParam (OAUTH_ROUTE exampleEnv) (req_path returningRequest) = Some ''gitlab''"
    by (simp add: example_defs mountParam_def)
  have h2: "config exampleEnv ''gitlab'' = Undefined \<or> config exampleEnv ''gitlab'' = Null"
    by (simp add: example_defs)
  from disabled_provider_stops_router [OF h1 h2] h1 show ?thesis
    by (simp add: example_defs)
qed

text \<open>
  The claim as the specification states it (no session cookie on that response) fails
  for a browser without a session cookie asking for a disabled provider.
\<close>

theorem disabled_provider_sets_cookie:
  "router exampleEnv disabledRequest =
     ([SetCookie ''connect.sid'' ''sid-1'',
       SendError ''disabled-endpoint'' (Some ''https://app.example/finish'') True], Returned)"
  by (simp add: router_defs example_defs)

section \<open>The redirect target\<close>

text \<open>
  The provider's return to \<^verbatim>\<open>`${OAUTH_ROUTE}/${provider}/callback`\<close> is under the
  provider route, as is every path that goes on after the provider.
\<close>

lemma mountParam_under_route:
  "provider \<noteq> [] \<Longrightarrow> mountParam route (route @ provider # rest) = Some provider"
  by (simp add: mountParam_def)

text \<open>
  Whenever the middlewares of lines 47 to 94 let a request pass, the session holds the
  redirect target and the query of that very request, whatever it held before.
\<close>

lemma providerChain_saves:
  "providerChain env req provider = (evs, session, Next) \<Longrightarrow>
   s_redirectTo session = redirectToRule env (req_query req) \<and> s_options session \<noteq> None"
  by (auto simp: providerChain_def saveSession_def Let_def
        split: prod.splits flow.splits sum.splits)

text \<open>
  So on a request under the provider route that reaches the callback, the callback
  works with the redirect target of that request's query, or with the client url.
\<close>

lemma router_target_of_request:
  assumes "mountParam (OAUTH_ROUTE env) (req_path req) = Some provider"
    and "providerChain env req provider = (evs, session, Next)"
    and "grantMiddleware env req session = Inr session'"
    and "s_redirectTo session' = s_redirectTo session"
  shows "router env req = after evs (callback env session') \<and>
    target env session' =
      (case redirectToRule env (req_query req) of None \<Rightarrow> AUTH_CLIENT_URL env | Some url \<Rightarrow> url)"
  using assms providerChain_saves [OF assms(2)]
  by (simp add: router_def grantThenCallback_def target_def)

text \<open>
  Claim C9. The redirect target validated at initiation should be the base of the
  final redirect. The middlewares that store it are mounted with \<^verbatim>\<open>use\<close> on the
  provider route, so they run again on the provider's return to
  \<^verbatim>\<open>.../github/callback\<close> and store the redirect target and the query of that request
  before Grant and the callback run. In the run below the session arrives with
  \<^verbatim>\<open>https://app.example/finish\<close>, the provider's query names no redirect target, and
  the callback redirects to the client url.
\<close>

theorem router_callback_overwrites_target:
  "s_redirectTo (req_session callbackRequest) = Some ''https://app.example/finish'' \<and>
   router exampleEnv callbackRequest =
     ([SessionSave, SessionDestroy, ClearCookie ''connect.sid'',
       ConsoleLog (Some ''at'') (Some ''rt'') None,
       AuthUserProviders ''github'' (Some ''42''),
       GetUserByEmail (Some ''ann@example.org''),
       InsertUser [(''email'', ''ann@example.org''), (''code'', ''abc''), (''state'', ''xyz'')]
         [\<lparr>up_userId = None, up_providerId = ''github'', up_providerUserId = Some ''42'',
           up_accessToken = Some ''at'', up_refreshToken = Some ''rt''\<rparr>],
       GetNewRefreshToken ''user-2'',
       Redirect ''https://client.example?refreshToken=token-for-user-2''],
      Returned)"
  by (simp add: router_defs callback_defs example_defs)


end
